theory Spec2Isabelle
  imports Main
begin

section \<open>Data model of the authentication service\<close>

text \<open>
  The service under verification is \<^verbatim>\<open>src/auth/auth.service.ts\<close> (class
  \<^verbatim>\<open>AuthService\<close>). Its operations are asynchronous methods that talk to four
  collaborators: the JWT signer, the argon2 and bcrypt hashers, a Redis client and the user
  repository. Each method is embedded as a function that takes the collaborators it calls
  (record \<open>deps\<close>), its arguments and the state of the outside world (record \<open>world\<close>) and
  returns its result together with the world it leaves behind. A thrown exception is the
  \<open>Inl\<close> branch of the result. Every method is treated as one atomic step. The service
  awaits its collaborators without catching anything, so a rejection of theirs reaches the
  caller as it is; the one rejection that depends on the data the service itself stores,
  that of \<^verbatim>\<open>argon2.verify\<close> on a stored value that is not an encoded digest, is
  part of the model. Rejections for reasons outside the data (network, configuration) are
  not. The messages carried by the exceptions are not modelled, only their class.
\<close>

text \<open>
  What a method can throw: the two HTTP exceptions the service raises itself, and the
  \<^verbatim>\<open>TypeError\<close> with which \<^verbatim>\<open>argon2.verify\<close> rejects.
\<close>

datatype exception = UnauthorizedException | BadRequestException | TypeError

text \<open>The three fields of a user entity that the service reads or writes.\<close>

record User =
  user_id :: int
  user_email :: string
  user_password :: "string option"

record AuthJwtPayload =
  sub :: int

record TokenResponse =
  accessToken :: string
  refreshToken' :: string

text \<open>The object literal \<^verbatim>\<open>{ id, accessToken, refreshToken }\<close> returned by \<^verbatim>\<open>login\<close>.\<close>

record LoginResponse = TokenResponse +
  login_id :: int

text \<open>The object literal \<^verbatim>\<open>{ id }\<close> returned by the two validators.\<close>

record IdResponse =
  id' :: int

record UpdatePasswordRequestDto =
  currentPassword :: string
  newPassword :: string
  newPasswordConfirm :: string

record CreateUserRequestDto =
  email :: string

text \<open>
  The commands the service sends to Redis. They are recorded in the world so that a
  statement can speak about which keys an operation addresses.
\<close>

datatype redis_call = SETEX string nat string | GET string | DEL string

text \<open>
  A Redis slot holds a value and the second at which it expires; \<open>clock\<close> is the current
  time in seconds, \<open>seed\<close> the randomness the next salted hash draws on.
\<close>

record world =
  redis :: "string \<rightharpoonup> string \<times> nat"
  redis_calls :: "redis_call list"
  users :: "User list"
  clock :: nat
  seed :: nat

text \<open>
  The injected collaborators and configuration. \<open>signAsync\<close> is
  \<^verbatim>\<open>jwtService.signAsync(payload, options?)\<close> at a given second, \<open>argon2_hash\<close> is
  \<^verbatim>\<open>argon2.hash\<close> with the salt it draws, \<open>argon2_verify\<close> is
  \<^verbatim>\<open>argon2.verify(digest, plain)\<close>, which answers a boolean for an encoded digest
  and rejects (\<open>None\<close>) for any other string, \<open>bcrypt_compare\<close> is
  \<^verbatim>\<open>bcrypt.compare(plain, digest)\<close> and \<open>REDIS_REFRESH_EXPIRE_SECONDS\<close> is the
  number read from the environment variable of that name.
\<close>

record 'c deps =
  signAsync :: "AuthJwtPayload \<Rightarrow> 'c option \<Rightarrow> nat \<Rightarrow> string"
  refreshTokenConfig :: 'c
  argon2_hash :: "nat \<Rightarrow> string \<Rightarrow> string"
  argon2_verify :: "string \<Rightarrow> string \<Rightarrow> bool option"
  bcrypt_compare :: "string \<Rightarrow> string \<Rightarrow> bool"
  REDIS_REFRESH_EXPIRE_SECONDS :: nat

section \<open>Rendering a user id inside the Redis key\<close>

text \<open>
  The key is the template literal \<^verbatim>\<open>`userId:${userId}:refreshToken`\<close>. User ids are
  integers (database keys); for an integer of fewer than 22 digits JavaScript's
  number-to-string conversion is the decimal numeral, with a leading minus sign below zero.
\<close>

definition digit_char :: "nat \<Rightarrow> char" where
  "digit_char d = ''0123456789'' ! d"

function show_nat :: "nat \<Rightarrow> string" where
  "show_nat n = (if n < 10 then [digit_char n] else show_nat (n div 10) @ [digit_char (n mod 10)])"
  by pat_completeness auto
termination
  by (relation "measure (\<lambda>n. n)") auto

declare show_nat.simps [simp del]



definition show_int :: "int \<Rightarrow> string" where
  "show_int i = (if i < 0 then CHR ''-'' # show_nat (nat (- i)) else show_nat (nat i))"

definition getRefreshTokenKey :: "int \<Rightarrow> string" where
  "getRefreshTokenKey userId = ''userId:'' @ show_int userId @ '':refreshToken''"

section \<open>The Redis client\<close>

text \<open>
  \<^verbatim>\<open>SETEX key seconds value\<close> overwrites the slot and its expiry in one step,
  \<^verbatim>\<open>GET\<close> answers null for a slot that was never set or whose expiry has passed, and
  \<^verbatim>\<open>DEL\<close> removes the slot whether or not it exists. A time to live of zero seconds
  leaves no readable value behind.
\<close>

definition redis_setex :: "string \<Rightarrow> nat \<Rightarrow> string \<Rightarrow> world \<Rightarrow> world" where
  "redis_setex key seconds v w =
     w\<lparr>redis := (redis w)(key \<mapsto> (v, clock w + seconds)),
       redis_calls := redis_calls w @ [SETEX key seconds v]\<rparr>"

definition redis_lookup :: "world \<Rightarrow> string \<Rightarrow> string option" where
  "redis_lookup w key =
     (case redis w key of
        None \<Rightarrow> None
      | Some (v, expires) \<Rightarrow> if clock w < expires then Some v else None)"

definition redis_get :: "string \<Rightarrow> world \<Rightarrow> string option \<times> world" where
  "redis_get key w = (redis_lookup w key, w\<lparr>redis_calls := redis_calls w @ [GET key]\<rparr>)"

definition redis_del :: "string \<Rightarrow> world \<Rightarrow> world" where
  "redis_del key w =
     w\<lparr>redis := (redis w)(key := None), redis_calls := redis_calls w @ [DEL key]\<rparr>"

text \<open>Time passing between two requests.\<close>

definition advance :: "nat \<Rightarrow> world \<Rightarrow> world" where
  "advance d w = w\<lparr>clock := clock w + d\<rparr>"

section \<open>The user repository and user service\<close>

text \<open>
  The files \<^verbatim>\<open>src/user/user.repository.ts\<close> and \<^verbatim>\<open>src/user/user.service.ts\<close>
  are not among the sources; the four operations the service calls on them follow the
  contract the spec gives for its UserStore. The store is a list of user rows.
\<close>

text \<open>
  Modelled from the spec: \<^verbatim>\<open>UserRepository.findOneById\<close> is missing; the spec has
  \<^verbatim>\<open>findById(id) -> Identity|absent\<close>.
\<close>

definition findOneById :: "int \<Rightarrow> world \<Rightarrow> User option" where
  "findOneById i w = find (\<lambda>u. user_id u = i) (users w)"

text \<open>
  Modelled from the spec: \<^verbatim>\<open>UserRepository.findOneByEmail\<close> is missing; the spec has
  \<^verbatim>\<open>findByEmail(email) -> Identity|absent\<close>.
\<close>

definition findOneByEmail :: "string \<Rightarrow> world \<Rightarrow> User option" where
  "findOneByEmail e w = find (\<lambda>u. user_email u = e) (users w)"

text \<open>
  Modelled from the spec: \<^verbatim>\<open>UserRepository.save\<close> is missing; the spec has
  \<^verbatim>\<open>save(Identity) -> void\<close>, persisting the identity. The row with the same id is
  replaced; a row with a new id is appended.
\<close>

definition save :: "User \<Rightarrow> world \<Rightarrow> world" where
  "save u w =
     (case find (\<lambda>x. user_id x = user_id u) (users w) of
        None \<Rightarrow> w\<lparr>users := users w @ [u]\<rparr>
      | Some _ \<Rightarrow> w\<lparr>users := map (\<lambda>x. if user_id x = user_id u then u else x) (users w)\<rparr>)"

text \<open>
  Modelled from the spec: the allocation of ids by the user table is missing, and the spec
  leaves it open; here a new row gets the id one above the largest in use. No statement
  below depends on the choice.
\<close>

definition next_id :: "User list \<Rightarrow> int" where
  "next_id us = fold max (map user_id us) 0 + 1"

text \<open>
  Modelled from the spec: \<^verbatim>\<open>UserService.createUser\<close> is missing; the spec has
  \<^verbatim>\<open>create(attrs) -> Identity\<close>, and for the OAuth path that the new identity is
  created with no password hash set. Of the attributes only the email is modelled; a
  request may carry more.
\<close>

definition createUser :: "'a CreateUserRequestDto_scheme \<Rightarrow> world \<Rightarrow> User \<times> world" where
  "createUser dto w =
     (let u = \<lparr>user_id = next_id (users w), user_email = email dto, user_password = None\<rparr>
      in (u, w\<lparr>users := users w @ [u]\<rparr>))"

section \<open>The operations of AuthService\<close>

definition generateTokens :: "'c deps \<Rightarrow> int \<Rightarrow> world \<Rightarrow> TokenResponse" where
  "generateTokens env userId w =
     (let payload = \<lparr>sub = userId\<rparr>;
          at = signAsync env payload None (clock w);
          rt = signAsync env payload (Some (refreshTokenConfig env)) (clock w)
      in \<lparr>accessToken = at, refreshToken' = rt\<rparr>)"

definition login :: "'c deps \<Rightarrow> int \<Rightarrow> world \<Rightarrow> LoginResponse \<times> world" where
  "login env userId w =
     (let tokens = generateTokens env userId w;
          hashedRefreshToken = argon2_hash env (seed w) (refreshToken' tokens);
          w1 = w\<lparr>seed := seed w + 1\<rparr>;
          key = getRefreshTokenKey userId;
          w2 = redis_setex key (REDIS_REFRESH_EXPIRE_SECONDS env) hashedRefreshToken w1
      in (\<lparr>accessToken = accessToken tokens, refreshToken' = refreshToken' tokens,
            login_id = userId\<rparr>, w2))"

definition logout :: "int \<Rightarrow> world \<Rightarrow> world" where
  "logout userId w = (let key = getRefreshTokenKey userId in redis_del key w)"

text \<open>
  \<^verbatim>\<open>!user.password\<close> holds for a missing password and for the empty string alike.
  The new password is written into the row as it stands in the request.
\<close>

definition updatePassword ::
  "'c deps \<Rightarrow> int \<Rightarrow> UpdatePasswordRequestDto \<Rightarrow> world \<Rightarrow> (exception + unit) \<times> world" where
  "updatePassword env userId dto w =
     (case findOneById userId w of
        None \<Rightarrow> (Inl UnauthorizedException, w)
      | Some user \<Rightarrow>
          (case user_password user of
             None \<Rightarrow> (Inl UnauthorizedException, w)
           | Some pw \<Rightarrow>
               if pw = [] then (Inl UnauthorizedException, w)
               else if \<not> bcrypt_compare env (currentPassword dto) pw
                 then (Inl UnauthorizedException, w)
               else if newPassword dto \<noteq> newPasswordConfirm dto
                 then (Inl BadRequestException, w)
               else (Inr (), save (user\<lparr>user_password := Some (newPassword dto)\<rparr>) w)))"

definition refreshToken :: "'c deps \<Rightarrow> int \<Rightarrow> world \<Rightarrow> TokenResponse \<times> world" where
  "refreshToken env userId w =
     (let tokens = generateTokens env userId w;
          hashedRefreshToken = argon2_hash env (seed w) (refreshToken' tokens);
          w1 = w\<lparr>seed := seed w + 1\<rparr>;
          key = getRefreshTokenKey userId;
          w2 = redis_setex key (REDIS_REFRESH_EXPIRE_SECONDS env) hashedRefreshToken w1
      in (\<lparr>accessToken = accessToken tokens, refreshToken' = refreshToken' tokens\<rparr>, w2))"

definition updateHashedRefreshToken :: "'c deps \<Rightarrow> int \<Rightarrow> string \<Rightarrow> world \<Rightarrow> world" where
  "updateHashedRefreshToken env userId hashedRefreshToken w =
     (let key = getRefreshTokenKey userId
      in redis_setex key (REDIS_REFRESH_EXPIRE_SECONDS env) hashedRefreshToken w)"

definition validateLocalUser ::
  "'c deps \<Rightarrow> string \<Rightarrow> string \<Rightarrow> world \<Rightarrow> (exception + IdResponse) \<times> world" where
  "validateLocalUser env e password w =
     (case findOneByEmail e w of
        None \<Rightarrow> (Inl UnauthorizedException, w)
      | Some user \<Rightarrow>
          (case user_password user of
             None \<Rightarrow> (Inl UnauthorizedException, w)
           | Some pw \<Rightarrow>
               if pw = [] then (Inl UnauthorizedException, w)
               else if \<not> bcrypt_compare env password pw then (Inl UnauthorizedException, w)
               else (Inr \<lparr>id' = user_id user\<rparr>, w)))"

definition validateOAuthUser :: "'a CreateUserRequestDto_scheme \<Rightarrow> world \<Rightarrow> User \<times> world" where
  "validateOAuthUser dto w =
     (case findOneByEmail (email dto) w of
        Some user \<Rightarrow> (user, w)
      | None \<Rightarrow> createUser dto w)"

definition getHashedRefreshToken :: "int \<Rightarrow> world \<Rightarrow> string option \<times> world" where
  "getHashedRefreshToken userId w = (let key = getRefreshTokenKey userId in redis_get key w)"

text \<open>
  \<^verbatim>\<open>!hashedRefreshToken\<close> holds for null and for the empty string alike. The call
  of \<^verbatim>\<open>argon2.verify\<close> is awaited outside any try block: when it rejects, the
  method rejects with the same error.
\<close>

definition validateRefreshToken ::
  "'c deps \<Rightarrow> int \<Rightarrow> string \<Rightarrow> world \<Rightarrow> (exception + IdResponse) \<times> world" where
  "validateRefreshToken env userId token w =
     (case getHashedRefreshToken userId w of
        (None, w1) \<Rightarrow> (Inl UnauthorizedException, w1)
      | (Some hashedRefreshToken, w1) \<Rightarrow>
          if hashedRefreshToken = [] then (Inl UnauthorizedException, w1)
          else
            (case argon2_verify env hashedRefreshToken token of
               None \<Rightarrow> (Inl TypeError, w1)
             | Some isRefreshTokenValid \<Rightarrow>
                 if \<not> isRefreshTokenValid then (Inl UnauthorizedException, w1)
                 else (Inr \<lparr>id' = userId\<rparr>, w1)))"

section \<open>Assumptions on the hashers\<close>

text \<open>
  What the statements below assume of the two hash libraries, where they need it: the
  argon2 verifier answers, for a digest made by the hasher, whether the candidate is the
  text that was hashed, and a digest is never the empty string; the bcrypt comparison does
  not accept the empty string as a digest.
\<close>

definition argon2_sound :: "'c deps \<Rightarrow> bool" where
  "argon2_sound env =
     ((\<forall>salt plain candidate.
         argon2_verify env (argon2_hash env salt plain) candidate = Some (plain = candidate)) \<and>
      (\<forall>salt plain. argon2_hash env salt plain \<noteq> []))"

definition bcrypt_rejects_empty :: "'c deps \<Rightarrow> bool" where
  "bcrypt_rejects_empty env = (\<forall>candidate. \<not> bcrypt_compare env candidate [])"

section \<open>A concrete instance\<close>

text \<open>
  One instance of the collaborators, used to run the operations on concrete inputs. The
  signer is a function of the payload, the signing options and the second of issue, as an
  HMAC-signed token with an \<^verbatim>\<open>iat\<close> claim is; the hashers keep the plain text
  readable so that the instance can be evaluated. A digest of the argon2 stand-in has the
  form \<^verbatim>\<open>$salt$plain\<close>, and its verifier rejects a string of any other form.
\<close>

definition demo_sign :: "AuthJwtPayload \<Rightarrow> string option \<Rightarrow> nat \<Rightarrow> string" where
  "demo_sign payload options t =
     (case options of None \<Rightarrow> ''access'' | Some secret \<Rightarrow> secret)
       @ ''.'' @ show_int (sub payload) @ ''.'' @ show_nat t"

definition demo_argon2_hash :: "nat \<Rightarrow> string \<Rightarrow> string" where
  "demo_argon2_hash salt plain = ''$'' @ show_nat salt @ ''$'' @ plain"

definition demo_argon2_verify :: "string \<Rightarrow> string \<Rightarrow> bool option" where
  "demo_argon2_verify digest plain =
     (case digest of
        [] \<Rightarrow> None
      | c # rest \<Rightarrow>
          if c \<noteq> CHR ''$'' then None
          else
            (case dropWhile (\<lambda>x. x \<noteq> CHR ''$'') rest of
               [] \<Rightarrow> None
             | _ # hashed \<Rightarrow> Some (hashed = plain)))"

definition demo_bcrypt_hash :: "string \<Rightarrow> string" where
  "demo_bcrypt_hash plain = ''$2b$'' @ plain"

definition demo_bcrypt_compare :: "string \<Rightarrow> string \<Rightarrow> bool" where
  "demo_bcrypt_compare plain digest = (digest = demo_bcrypt_hash plain)"

definition demo_env :: "string deps" where
  "demo_env =
     \<lparr>signAsync = demo_sign, refreshTokenConfig = ''refresh'',
      argon2_hash = demo_argon2_hash, argon2_verify = demo_argon2_verify,
      bcrypt_compare = demo_bcrypt_compare, REDIS_REFRESH_EXPIRE_SECONDS = 600\<rparr>"

definition demo_world :: world where
  "demo_world =
     \<lparr>redis = Map.empty, redis_calls = [],
      users =
        [\<lparr>user_id = 1, user_email = ''ann@example.org'',
          user_password = Some (demo_bcrypt_hash ''old-secret'')\<rparr>,
         \<lparr>user_id = 2, user_email = ''bob@example.org'', user_password = None\<rparr>],
      clock = 100, seed = 0\<rparr>"

lemmas demo_defs = demo_env_def demo_world_def demo_sign_def demo_argon2_hash_def
  demo_argon2_verify_def demo_bcrypt_hash_def demo_bcrypt_compare_def
lemmas op_defs = login_def refreshToken_def generateTokens_def logout_def
  validateRefreshToken_def getHashedRefreshToken_def updateHashedRefreshToken_def
  redis_setex_def redis_get_def redis_del_def redis_lookup_def advance_def Let_def
lemmas key_defs = getRefreshTokenKey_def show_int_def show_nat.simps digit_char_def

section \<open>Auxiliary facts\<close>

subsection \<open>Decimal numerals, the demo hashers and the Redis reads\<close>

lemma digit_char_mem: "d < 10 \<Longrightarrow> digit_char d \<in> set ''0123456789''"
  unfolding digit_char_def by (rule nth_mem) simp

lemma show_nat_digits: "set (show_nat n) \<subseteq> set ''0123456789''"
proof (induction n rule: show_nat.induct)
  case (1 n)
  show ?case
  proof (cases "n < 10")
    case True
    then show ?thesis using digit_char_mem [of n] by (subst show_nat.simps) simp
  next
    case False
    have "n mod 10 < 10" by simp
    then have "digit_char (n mod 10) \<in> set ''0123456789''" by (rule digit_char_mem)
    with False 1 show ?thesis by (subst show_nat.simps) simp
  qed
qed



lemma demo_bcrypt_rejects_empty: "bcrypt_rejects_empty demo_env"
  by (simp add: bcrypt_rejects_empty_def demo_env_def demo_bcrypt_compare_def demo_bcrypt_hash_def)

lemma redis_lookup_None_iff:
  "redis_lookup w k = None \<longleftrightarrow>
     (redis w k = None \<or> (\<exists>v expires. redis w k = Some (v, expires) \<and> expires \<le> clock w))"
  by (auto simp: redis_lookup_def split: option.splits)

lemma getHashedRefreshToken_fst:
  "fst (getHashedRefreshToken u w) = redis_lookup w (getRefreshTokenKey u)"
  by (simp add: getHashedRefreshToken_def redis_get_def Let_def)

lemma digit_char_inj: "a < 10 \<Longrightarrow> b < 10 \<Longrightarrow> digit_char a = digit_char b \<Longrightarrow> a = b"
proof -
  assume a: "a < 10" and b: "b < 10" and e: "digit_char a = digit_char b"
  have d: "distinct ''0123456789''" by simp
  have "a < length ''0123456789''" "b < length ''0123456789''" using a b by simp_all
  with d e show "a = b" unfolding digit_char_def by (simp only: nth_eq_iff_index_eq)
qed

lemma show_nat_nonempty: "show_nat n \<noteq> []"
  by (subst show_nat.simps) simp

lemma show_nat_inj: "show_nat n = show_nat m \<Longrightarrow> n = m"
proof (induction n arbitrary: m rule: show_nat.induct)
  case (1 n)
  show ?case
  proof (cases "n < 10")
    case n: True
    show ?thesis
    proof (cases "m < 10")
      case True
      with n 1(2) have "digit_char n = digit_char m"
        by (simp add: show_nat.simps [of n] show_nat.simps [of m])
      with n True show ?thesis by (intro digit_char_inj)
    next
      case False
      with n 1(2) show_nat_nonempty [of "m div 10"] show ?thesis
        by (simp add: show_nat.simps [of n] show_nat.simps [of m])
    qed
  next
    case n: False
    show ?thesis
    proof (cases "m < 10")
      case True
      with n 1(2) show_nat_nonempty [of "n div 10"] show ?thesis
        by (simp add: show_nat.simps [of n] show_nat.simps [of m])
    next
      case False
      with n 1(2) have e: "show_nat (n div 10) = show_nat (m div 10)"
        and d: "digit_char (n mod 10) = digit_char (m mod 10)"
        by (simp_all add: show_nat.simps [of n] show_nat.simps [of m])
      from 1(1) [OF n e] have q: "n div 10 = m div 10" .
      have "n mod 10 = m mod 10" using d by (intro digit_char_inj) simp_all
      with q show ?thesis by (metis div_mult_mod_eq)
    qed
  qed
qed

lemma minus_not_in_show_nat: "CHR ''-'' \<notin> set (show_nat n)"
  using show_nat_digits [of n] by auto

lemma show_int_inj: "show_int i = show_int j \<Longrightarrow> i = j"
proof -
  assume e: "show_int i = show_int j"
  have nm: "CHR ''-'' # show_nat n \<noteq> show_nat m" for n m
  proof
    assume "CHR ''-'' # show_nat n = show_nat m"
    then have "CHR ''-'' \<in> set (show_nat m)" by (metis list.set_intros(1))
    with minus_not_in_show_nat [of m] show False by simp
  qed
  show "i = j"
  proof (cases "i < 0")
    case i: True
    show ?thesis
    proof (cases "j < 0")
      case True
      with i e have "show_nat (nat (- i)) = show_nat (nat (- j))" by (simp add: show_int_def)
      then have "nat (- i) = nat (- j)" by (rule show_nat_inj)
      with i True show ?thesis by simp
    next
      case False
      with i e nm [of "nat (- i)" "nat j"] show ?thesis by (simp add: show_int_def)
    qed
  next
    case i: False
    show ?thesis
    proof (cases "j < 0")
      case True
      with i e nm [of "nat (- j)" "nat i"] show ?thesis by (simp add: show_int_def)
    next
      case False
      with i e have "show_nat (nat i) = show_nat (nat j)" by (simp add: show_int_def)
      then have "nat i = nat j" by (rule show_nat_inj)
      with i False show ?thesis by simp
    qed
  qed
qed

lemma getRefreshTokenKey_inj: "getRefreshTokenKey u = getRefreshTokenKey v \<Longrightarrow> u = v"
  by (simp add: getRefreshTokenKey_def show_int_inj)

lemma refreshToken_fst: "fst (refreshToken env u w) = generateTokens env u w"
  by (simp add: refreshToken_def Let_def)

lemma refreshToken_snd:
  "snd (refreshToken env u w) =
     redis_setex (getRefreshTokenKey u) (REDIS_REFRESH_EXPIRE_SECONDS env)
       (argon2_hash env (seed w) (refreshToken' (generateTokens env u w)))
       (w\<lparr>seed := seed w + 1\<rparr>)"
  by (simp add: refreshToken_def Let_def)

lemma redis_lookup_after_setex:
  "redis_lookup (advance d (redis_setex k s v w)) k = (if d < s then Some v else None)"
  by (simp add: redis_lookup_def advance_def redis_setex_def)

lemma validateRefreshToken_fst:
  "fst (validateRefreshToken env u t w) =
     (case redis_lookup w (getRefreshTokenKey u) of
        None \<Rightarrow> Inl UnauthorizedException
      | Some h \<Rightarrow>
          if h = [] then Inl UnauthorizedException
          else
            (case argon2_verify env h t of
               None \<Rightarrow> Inl TypeError
             | Some valid \<Rightarrow>
                 if valid then Inr \<lparr>id' = u\<rparr> else Inl UnauthorizedException))"
  by (simp add: validateRefreshToken_def getHashedRefreshToken_def redis_get_def Let_def
      split: option.splits)

subsection \<open>The user table\<close>

lemmas user_defs = updatePassword_def validateLocalUser_def validateOAuthUser_def
  findOneById_def findOneByEmail_def save_def createUser_def next_id_def Let_def

lemma find_snoc:
  "find P (xs @ [x]) = (case find P xs of None \<Rightarrow> if P x then Some x else None | Some y \<Rightarrow> Some y)"
  by (induction xs) simp_all

lemma find_replace_by_id:
  "find (\<lambda>x. user_id x = i) xs = Some y \<Longrightarrow> user_id n = i \<Longrightarrow>
   find (\<lambda>x. user_id x = i) (map (\<lambda>x. if user_id x = i then n else x) xs) = Some n"
  by (induction xs) (auto split: if_splits)

lemma find_by_id_id: "find (\<lambda>x. user_id x = i) xs = Some y \<Longrightarrow> user_id y = i"
  by (induction xs) (auto split: if_splits)

lemma findOneById_save: "findOneById (user_id n) (save n w) = Some n"
proof (cases "find (\<lambda>x. user_id x = user_id n) (users w)")
  case None
  then show ?thesis by (simp add: findOneById_def save_def find_snoc)
next
  case (Some y)
  then show ?thesis by (simp add: findOneById_def save_def find_replace_by_id)
qed


lemma updatePassword_success:
  assumes "fst (updatePassword env u dto w) = Inr ()"
  shows "\<exists>usr. findOneById u w = Some usr \<and>
           snd (updatePassword env u dto w) =
             save (usr\<lparr>user_password := Some (newPassword dto)\<rparr>) w"
proof (cases "findOneById u w")
  case None
  with assms show ?thesis by (simp add: updatePassword_def)
next
  case usr: (Some usr)
  show ?thesis
  proof (cases "user_password usr")
    case None
    with assms usr show ?thesis by (simp add: updatePassword_def)
  next
    case (Some pw)
    with assms usr show ?thesis by (simp add: updatePassword_def split: if_splits)
  qed
qed

subsection \<open>What the operations return and leave behind\<close>

lemma login_fst:
  "fst (login env u w) =
     \<lparr>accessToken = accessToken (generateTokens env u w),
      refreshToken' = refreshToken' (generateTokens env u w), login_id = u\<rparr>"
  by (simp add: login_def Let_def)

lemma login_snd:
  "snd (login env u w) =
     redis_setex (getRefreshTokenKey u) (REDIS_REFRESH_EXPIRE_SECONDS env)
       (argon2_hash env (seed w) (refreshToken' (generateTokens env u w)))
       (w\<lparr>seed := seed w + 1\<rparr>)"
  by (simp add: login_def Let_def)

lemma validateRefreshToken_snd:
  "snd (validateRefreshToken env u t w) =
     w\<lparr>redis_calls := redis_calls w @ [GET (getRefreshTokenKey u)]\<rparr>"
  by (simp add: validateRefreshToken_def getHashedRefreshToken_def redis_get_def Let_def
      split: option.splits)

lemma getHashedRefreshToken_snd:
  "snd (getHashedRefreshToken u w) =
     w\<lparr>redis_calls := redis_calls w @ [GET (getRefreshTokenKey u)]\<rparr>"
  by (simp add: getHashedRefreshToken_def redis_get_def Let_def)

lemma redis_lookup_cong:
  "redis w' k = redis w k \<Longrightarrow> clock w' = clock w \<Longrightarrow> redis_lookup w' k = redis_lookup w k"
  by (simp add: redis_lookup_def split: option.splits)

subsection \<open>Creating a user on first OAuth login\<close>

lemma createUser_fst:
  "fst (createUser dto w) =
     \<lparr>user_id = next_id (users w), user_email = email dto, user_password = None\<rparr>"
  by (simp add: createUser_def Let_def)

lemma createUser_snd:
  "snd (createUser dto w) = w\<lparr>users := users w @ [fst (createUser dto w)]\<rparr>"
  by (simp add: createUser_def Let_def)

lemma validateOAuthUser_found:
  "findOneByEmail (email dto) w = Some usr \<Longrightarrow> validateOAuthUser dto w = (usr, w)"
  by (simp add: validateOAuthUser_def)

lemma validateOAuthUser_new:
  "findOneByEmail (email dto) w = None \<Longrightarrow> validateOAuthUser dto w = createUser dto w"
  by (simp add: validateOAuthUser_def)

lemma findOneByEmail_after_validateOAuthUser:
  "findOneByEmail (email dto) (snd (validateOAuthUser dto w)) = Some (fst (validateOAuthUser dto w))"
proof (cases "findOneByEmail (email dto) w")
  case None
  then have "find (\<lambda>u. user_email u = email dto) (users w) = None"
    by (simp add: findOneByEmail_def)
  then show ?thesis
    by (simp add: validateOAuthUser_new [OF None] createUser_snd findOneByEmail_def find_snoc)
      (simp add: createUser_fst)
next
  case (Some usr)
  then show ?thesis by (simp add: validateOAuthUser_found)
qed

subsection \<open>Reading a numeral back\<close>




section \<open>Rotation of the refresh token\<close>

text \<open>
  Claim C1 does not hold of the code. \<^verbatim>\<open>refreshToken\<close> is announced as refresh
  token rotation, but it stores the digest of whatever the signer returns and nothing makes
  the new token differ from the one issued before. With a signer that is a function of the
  payload, the options and the second of issue, a login and a rotation for user 42 within
  the same second yield the same refresh token: the token that was valid before the
  rotation is the token the rotation returns, and it is still accepted afterwards, where
  the claim has it rejected with Unauthorized.
\<close>

theorem rotation_keeps_identical_token_valid:
  "fst (validateRefreshToken demo_env 42 ''refresh.42.100''
         (snd (login demo_env 42 demo_world))) = Inr \<lparr>id' = 42\<rparr> \<and>
   refreshToken' (fst (refreshToken demo_env 42 (snd (login demo_env 42 demo_world)))) =
     ''refresh.42.100'' \<and>
   fst (validateRefreshToken demo_env 42 ''refresh.42.100''
         (snd (refreshToken demo_env 42 (snd (login demo_env 42 demo_world))))) =
     Inr \<lparr>id' = 42\<rparr> \<and>
   fst (validateRefreshToken demo_env 42 ''refresh.42.100''
         (snd (refreshToken demo_env 42 (snd (login demo_env 42 demo_world))))) \<noteq>
     Inl UnauthorizedException"
  by (simp add: demo_defs op_defs key_defs)

text \<open>
  The coincidence of the two tokens is the whole of the defect. With a sound argon2, every
  raw token other than the one just returned is rejected after a rotation, at once and
  after any lapse of time \<open>d\<close>, and the one just returned is accepted until its time to
  live has passed.
\<close>

lemma rotation_rejects_every_other_token:
  assumes "argon2_sound env"
    and "oldRaw \<noteq> refreshToken' (fst (refreshToken env u w))"
  shows "fst (validateRefreshToken env u oldRaw (advance d (snd (refreshToken env u w)))) =
      Inl UnauthorizedException"
proof -
  let ?new = "refreshToken' (generateTokens env u w)"
  let ?digest = "argon2_hash env (seed w) ?new"
  from assms(1) have ne: "?digest \<noteq> []"
    and ver: "argon2_verify env ?digest t = Some (?new = t)" for t
    by (simp_all add: argon2_sound_def)
  from assms(2) have diff: "?new \<noteq> oldRaw"
    by (simp add: refreshToken_fst)
  show ?thesis
    by (simp add: validateRefreshToken_fst refreshToken_fst refreshToken_snd
        redis_lookup_after_setex ne ver diff)
qed

lemma rotation_accepts_new_token:
  assumes "argon2_sound env"
    and "d < REDIS_REFRESH_EXPIRE_SECONDS env"
  shows "fst (validateRefreshToken env u (refreshToken' (fst (refreshToken env u w)))
      (advance d (snd (refreshToken env u w)))) = Inr \<lparr>id' = u\<rparr>"
proof -
  let ?new = "refreshToken' (generateTokens env u w)"
  let ?digest = "argon2_hash env (seed w) ?new"
  from assms(1) have ne: "?digest \<noteq> []"
    and ver: "argon2_verify env ?digest t = Some (?new = t)" for t
    by (simp_all add: argon2_sound_def)
  show ?thesis
    using assms(2)
    by (simp add: validateRefreshToken_fst refreshToken_fst refreshToken_snd
        redis_lookup_after_setex ne ver)
qed

section \<open>Changing the password\<close>

text \<open>
  Whenever \<^verbatim>\<open>updatePassword\<close> succeeds, the row it saves carries the text of
  \<^verbatim>\<open>dto.newPassword\<close> in its password field, for every hasher and every request.
\<close>

lemma updatePassword_stores_request_text:
  assumes "fst (updatePassword env u dto w) = Inr ()"
  shows "\<exists>usr. findOneById u (snd (updatePassword env u dto w)) = Some usr \<and>
           user_password usr = Some (newPassword dto)"
proof -
  from updatePassword_success [OF assms] obtain usr where f: "findOneById u w = Some usr"
    and s: "snd (updatePassword env u dto w) =
      save (usr\<lparr>user_password := Some (newPassword dto)\<rparr>) w"
    by blast
  from f have i: "user_id usr = u" unfolding findOneById_def by (rule find_by_id_id)
  have "findOneById (user_id (usr\<lparr>user_password := Some (newPassword dto)\<rparr>))
      (save (usr\<lparr>user_password := Some (newPassword dto)\<rparr>) w) =
      Some (usr\<lparr>user_password := Some (newPassword dto)\<rparr>)"
    by (rule findOneById_save)
  with i s show ?thesis by simp
qed

text \<open>
  Claim C2 does not hold of the code. User 1 has the digest of \<^verbatim>\<open>old-secret\<close> stored
  and asks, with the right current password, for the new password \<^verbatim>\<open>new-secret\<close>.
  The request succeeds; the password field then holds the text \<^verbatim>\<open>new-secret\<close>
  itself, which is not its digest, and \<^verbatim>\<open>validateLocalUser\<close> with the new password
  is refused, although the same check accepted the old password before the change.
\<close>

theorem updatePassword_persists_raw_password:
  "fst (updatePassword demo_env 1
         \<lparr>currentPassword = ''old-secret'', newPassword = ''new-secret'',
          newPasswordConfirm = ''new-secret''\<rparr> demo_world) = Inr () \<and>
   map_option user_password (findOneById 1 (snd (updatePassword demo_env 1
         \<lparr>currentPassword = ''old-secret'', newPassword = ''new-secret'',
          newPasswordConfirm = ''new-secret''\<rparr> demo_world))) = Some (Some ''new-secret'') \<and>
   ''new-secret'' \<noteq> demo_bcrypt_hash ''new-secret'' \<and>
   fst (validateLocalUser demo_env ''ann@example.org'' ''new-secret''
         (snd (updatePassword demo_env 1
         \<lparr>currentPassword = ''old-secret'', newPassword = ''new-secret'',
          newPasswordConfirm = ''new-secret''\<rparr> demo_world))) = Inl UnauthorizedException \<and>
   fst (validateLocalUser demo_env ''ann@example.org'' ''old-secret'' demo_world) =
     Inr \<lparr>id' = 1\<rparr>"
  by (simp add: demo_defs user_defs)

section \<open>Validating a refresh token\<close>

text \<open>
  Claim C3, as stated, fails: Unauthorized is not the only error. The slot of user 42 is
  given, through \<^verbatim>\<open>updateHashedRefreshToken\<close>, a value that is not an encoded
  digest. The store then holds a value for the user, \<^verbatim>\<open>argon2.verify\<close> rejects
  it, and \<^verbatim>\<open>validateRefreshToken\<close> rejects with that \<^verbatim>\<open>TypeError\<close>: it
  neither throws Unauthorized nor returns \<^verbatim>\<open>{ id: 42 }\<close>.
\<close>

theorem validateRefreshToken_rejects_with_TypeError:
  "fst (getHashedRefreshToken 42 (updateHashedRefreshToken demo_env 42 ''garbage'' demo_world)) =
     Some ''garbage'' \<and>
   argon2_verify demo_env ''garbage'' ''refresh.42.100'' = None \<and>
   fst (validateRefreshToken demo_env 42 ''refresh.42.100''
         (updateHashedRefreshToken demo_env 42 ''garbage'' demo_world)) = Inl TypeError \<and>
   fst (validateRefreshToken demo_env 42 ''refresh.42.100''
         (updateHashedRefreshToken demo_env 42 ''garbage'' demo_world)) \<noteq>
     Inl UnauthorizedException \<and>
   fst (validateRefreshToken demo_env 42 ''refresh.42.100''
         (updateHashedRefreshToken demo_env 42 ''garbage'' demo_world)) \<noteq> Inr \<lparr>id' = 42\<rparr>"
  by (simp add: demo_defs op_defs key_defs)

text \<open>
  Claim C3, amended. \<^verbatim>\<open>validateRefreshToken(u, t)\<close> has three outcomes. It fails
  with Unauthorized exactly when the store answers no value for the key of \<open>u\<close> (the slot is
  absent or its expiry has passed) or the empty string, or the verifier answers false for
  the stored value and \<open>t\<close>. It returns \<^verbatim>\<open>{ id: u }\<close> exactly when the stored value
  is not empty and the verifier answers true. It rejects with the verifier's
  \<^verbatim>\<open>TypeError\<close> exactly when the stored value is not empty and the verifier rejects
  it. It never throws BadRequest, and it makes no other check.
\<close>

theorem validateRefreshToken_outcome:
  "(fst (validateRefreshToken env u t w) = Inl UnauthorizedException \<longleftrightarrow>
      fst (getHashedRefreshToken u w) = None \<or>
      fst (getHashedRefreshToken u w) = Some [] \<or>
      (\<exists>h. fst (getHashedRefreshToken u w) = Some h \<and> argon2_verify env h t = Some False)) \<and>
   (fst (validateRefreshToken env u t w) = Inr \<lparr>id' = u\<rparr> \<longleftrightarrow>
      (\<exists>h. fst (getHashedRefreshToken u w) = Some h \<and> h \<noteq> [] \<and>
         argon2_verify env h t = Some True)) \<and>
   (fst (validateRefreshToken env u t w) = Inl TypeError \<longleftrightarrow>
      (\<exists>h. fst (getHashedRefreshToken u w) = Some h \<and> h \<noteq> [] \<and>
         argon2_verify env h t = None)) \<and>
   fst (validateRefreshToken env u t w) \<in>
     {Inl UnauthorizedException, Inl TypeError, Inr \<lparr>id' = u\<rparr>} \<and>
   (fst (getHashedRefreshToken u w) = None \<longleftrightarrow>
      redis w (getRefreshTokenKey u) = None \<or>
      (\<exists>v expires. redis w (getRefreshTokenKey u) = Some (v, expires) \<and> expires \<le> clock w))"
proof -
  let ?h = "redis_lookup w (getRefreshTokenKey u)"
  let ?r = "fst (validateRefreshToken env u t w)"
  have stored: "fst (getHashedRefreshToken u w) = ?h"
    by (rule getHashedRefreshToken_fst)
  have table: "?r =
      (case ?h of
         None \<Rightarrow> Inl UnauthorizedException
       | Some h \<Rightarrow>
           if h = [] then Inl UnauthorizedException
           else
             (case argon2_verify env h t of
                None \<Rightarrow> Inl TypeError
              | Some valid \<Rightarrow>
                  if valid then Inr \<lparr>id' = u\<rparr> else Inl UnauthorizedException))"
    by (rule validateRefreshToken_fst)
  have unauthorized: "?r = Inl UnauthorizedException \<longleftrightarrow>
      ?h = None \<or> ?h = Some [] \<or> (\<exists>h. ?h = Some h \<and> argon2_verify env h t = Some False)"
    unfolding table by (cases ?h; cases "argon2_verify env (the ?h) t") auto
  have accepted: "?r = Inr \<lparr>id' = u\<rparr> \<longleftrightarrow>
      (\<exists>h. ?h = Some h \<and> h \<noteq> [] \<and> argon2_verify env h t = Some True)"
    unfolding table by (cases ?h; cases "argon2_verify env (the ?h) t") auto
  have rejected: "?r = Inl TypeError \<longleftrightarrow>
      (\<exists>h. ?h = Some h \<and> h \<noteq> [] \<and> argon2_verify env h t = None)"
    unfolding table by (cases ?h; cases "argon2_verify env (the ?h) t") auto
  have three: "?r \<in> {Inl UnauthorizedException, Inl TypeError, Inr \<lparr>id' = u\<rparr>}"
    unfolding table by (cases ?h; cases "argon2_verify env (the ?h) t") auto
  from unauthorized accepted rejected three show ?thesis
    by (simp only: stored redis_lookup_None_iff)
qed

theorem validateRefreshToken_outcome_witness:
  "fst (validateRefreshToken demo_env 42 ''refresh.42.100'' demo_world) =
     Inl UnauthorizedException \<and>
   fst (validateRefreshToken demo_env 42 ''refresh.42.100''
          (snd (login demo_env 42 demo_world))) = Inr \<lparr>id' = 42\<rparr> \<and>
   fst (validateRefreshToken demo_env 42 ''refresh.42.101''
          (snd (login demo_env 42 demo_world))) = Inl UnauthorizedException \<and>
   fst (validateRefreshToken demo_env 42 ''refresh.42.100''
          (advance 600 (snd (login demo_env 42 demo_world)))) = Inl UnauthorizedException \<and>
   fst (validateRefreshToken demo_env 42 ''refresh.42.100''
          (updateHashedRefreshToken demo_env 42 [] demo_world)) = Inl UnauthorizedException"
proof -
  let ?w = "snd (login demo_env 42 demo_world)"
  have absent: "fst (getHashedRefreshToken 42 demo_world) = None"
    and stored: "fst (getHashedRefreshToken 42 ?w) = Some ''$0$refresh.42.100''"
    and expired: "fst (getHashedRefreshToken 42 (advance 600 ?w)) = None"
    and empty: "fst (getHashedRefreshToken 42 (updateHashedRefreshToken demo_env 42 [] demo_world)) =
      Some []"
    by (simp_all add: demo_defs op_defs key_defs)
  have right: "argon2_verify demo_env ''$0$refresh.42.100'' ''refresh.42.100'' = Some True"
    and wrong: "argon2_verify demo_env ''$0$refresh.42.100'' ''refresh.42.101'' = Some False"
    by (simp_all add: demo_defs key_defs)
  from validateRefreshToken_outcome [of demo_env 42 "''refresh.42.100''" demo_world] absent
  have a: "fst (validateRefreshToken demo_env 42 ''refresh.42.100'' demo_world) =
     Inl UnauthorizedException" by blast
  from validateRefreshToken_outcome [of demo_env 42 "''refresh.42.100''" ?w] stored right
  have b: "fst (validateRefreshToken demo_env 42 ''refresh.42.100'' ?w) = Inr \<lparr>id' = 42\<rparr>"
    by simp
  from validateRefreshToken_outcome [of demo_env 42 "''refresh.42.101''" ?w] stored wrong
  have c: "fst (validateRefreshToken demo_env 42 ''refresh.42.101'' ?w) =
     Inl UnauthorizedException" by simp
  from validateRefreshToken_outcome [of demo_env 42 "''refresh.42.100''" "advance 600 ?w"] expired
  have d: "fst (validateRefreshToken demo_env 42 ''refresh.42.100'' (advance 600 ?w)) =
     Inl UnauthorizedException" by blast
  from validateRefreshToken_outcome [of demo_env 42 "''refresh.42.100''"
      "updateHashedRefreshToken demo_env 42 [] demo_world"] empty
  have e: "fst (validateRefreshToken demo_env 42 ''refresh.42.100''
          (updateHashedRefreshToken demo_env 42 [] demo_world)) = Inl UnauthorizedException"
    by blast
  from a b c d e show ?thesis by blast
qed

section \<open>Rejected password changes\<close>

text \<open>
  Claim C4. \<^verbatim>\<open>updatePassword\<close> throws Unauthorized when no user has the id, when
  the user has no password, and when the current password fails the bcrypt comparison
  (whether or not the two new passwords agree); it throws BadRequest when the user has a
  password, the current password passes and the two new passwords differ. BadRequest is
  thrown only after the comparison of the current password has passed. On every failing
  path the world, and with it the stored password, is left as it was.
\<close>

theorem updatePassword_failures:
  "(findOneById u w = None \<longrightarrow>
      updatePassword env u dto w = (Inl UnauthorizedException, w)) \<and>
   (\<forall>usr. findOneById u w = Some usr \<and> user_password usr = None \<longrightarrow>
      updatePassword env u dto w = (Inl UnauthorizedException, w)) \<and>
   (\<forall>usr h. findOneById u w = Some usr \<and> user_password usr = Some h \<and>
        \<not> bcrypt_compare env (currentPassword dto) h \<longrightarrow>
      updatePassword env u dto w = (Inl UnauthorizedException, w)) \<and>
   (\<forall>usr h. findOneById u w = Some usr \<and> user_password usr = Some h \<and> h \<noteq> [] \<and>
        bcrypt_compare env (currentPassword dto) h \<and>
        newPassword dto \<noteq> newPasswordConfirm dto \<longrightarrow>
      updatePassword env u dto w = (Inl BadRequestException, w)) \<and>
   (fst (updatePassword env u dto w) = Inl BadRequestException \<longrightarrow>
      (\<exists>usr h. findOneById u w = Some usr \<and> user_password usr = Some h \<and>
         bcrypt_compare env (currentPassword dto) h)) \<and>
   (\<forall>e. fst (updatePassword env u dto w) = Inl e \<longrightarrow>
      snd (updatePassword env u dto w) = w)"
  by (auto simp: updatePassword_def split: option.splits if_splits)

theorem updatePassword_failures_witness:
  "updatePassword demo_env 3
     \<lparr>currentPassword = ''old-secret'', newPassword = ''a'', newPasswordConfirm = ''a''\<rparr>
     demo_world = (Inl UnauthorizedException, demo_world) \<and>
   updatePassword demo_env 2
     \<lparr>currentPassword = ''old-secret'', newPassword = ''a'', newPasswordConfirm = ''a''\<rparr>
     demo_world = (Inl UnauthorizedException, demo_world) \<and>
   updatePassword demo_env 1
     \<lparr>currentPassword = ''wrong'', newPassword = ''a'', newPasswordConfirm = ''b''\<rparr>
     demo_world = (Inl UnauthorizedException, demo_world) \<and>
   updatePassword demo_env 1
     \<lparr>currentPassword = ''old-secret'', newPassword = ''a'', newPasswordConfirm = ''b''\<rparr>
     demo_world = (Inl BadRequestException, demo_world)"
proof -
  let ?ann = "\<lparr>user_id = 1, user_email = ''ann@example.org'',
          user_password = Some (demo_bcrypt_hash ''old-secret'')\<rparr>"
  let ?bob = "\<lparr>user_id = 2, user_email = ''bob@example.org'', user_password = None\<rparr>"
  have f3: "findOneById 3 demo_world = None"
    and f2: "findOneById 2 demo_world = Some ?bob"
    and f1: "findOneById 1 demo_world = Some ?ann"
    by (simp_all add: findOneById_def demo_world_def)
  have wrong: "\<not> bcrypt_compare demo_env ''wrong'' (demo_bcrypt_hash ''old-secret'')"
    and right: "bcrypt_compare demo_env ''old-secret'' (demo_bcrypt_hash ''old-secret'')"
    and ne: "demo_bcrypt_hash ''old-secret'' \<noteq> []"
    by (simp_all add: demo_env_def demo_bcrypt_compare_def demo_bcrypt_hash_def)
  from updatePassword_failures [of 3 demo_world demo_env] f3
  have a: "updatePassword demo_env 3
     \<lparr>currentPassword = ''old-secret'', newPassword = ''a'', newPasswordConfirm = ''a''\<rparr>
     demo_world = (Inl UnauthorizedException, demo_world)" by blast
  from updatePassword_failures [of 2 demo_world demo_env] f2
  have b: "updatePassword demo_env 2
     \<lparr>currentPassword = ''old-secret'', newPassword = ''a'', newPasswordConfirm = ''a''\<rparr>
     demo_world = (Inl UnauthorizedException, demo_world)" by simp
  from updatePassword_failures [of 1 demo_world demo_env
      "\<lparr>currentPassword = ''wrong'', newPassword = ''a'', newPasswordConfirm = ''b''\<rparr>"] f1 wrong
  have c: "updatePassword demo_env 1
     \<lparr>currentPassword = ''wrong'', newPassword = ''a'', newPasswordConfirm = ''b''\<rparr>
     demo_world = (Inl UnauthorizedException, demo_world)" by simp
  let ?dto = "\<lparr>currentPassword = ''old-secret'', newPassword = ''a'', newPasswordConfirm = ''b''\<rparr>"
  have pw: "user_password ?ann = Some (demo_bcrypt_hash ''old-secret'')"
    and right': "bcrypt_compare demo_env (currentPassword ?dto) (demo_bcrypt_hash ''old-secret'')"
    and mismatch: "newPassword ?dto \<noteq> newPasswordConfirm ?dto"
    using right by simp_all
  from updatePassword_failures [of 1 demo_world demo_env ?dto]
  have "\<forall>usr h. findOneById 1 demo_world = Some usr \<and> user_password usr = Some h \<and> h \<noteq> [] \<and>
        bcrypt_compare demo_env (currentPassword ?dto) h \<and>
        newPassword ?dto \<noteq> newPasswordConfirm ?dto \<longrightarrow>
      updatePassword demo_env 1 ?dto demo_world = (Inl BadRequestException, demo_world)"
    by (elim conjE)
  with f1 pw ne right' mismatch
  have d: "updatePassword demo_env 1 ?dto demo_world = (Inl BadRequestException, demo_world)"
    by blast
  from a b c d show ?thesis by blast
qed

section \<open>Logout\<close>

text \<open>
  Claim C5. After \<^verbatim>\<open>logout(u)\<close>, \<^verbatim>\<open>validateRefreshToken(u, t)\<close> fails with
  Unauthorized for every raw token \<open>t\<close>, at once and after any lapse of time \<open>d\<close>. The
  operation has no failing branch: it deletes the slot of \<open>u\<close> and nothing else, doing it
  twice leaves the store as doing it once, and when no record exists for \<open>u\<close> the store is
  left as it was.
\<close>

theorem logout_invalidates_refresh_token:
  "fst (validateRefreshToken env u t (advance d (logout u w))) = Inl UnauthorizedException \<and>
   redis (logout u w) = (redis w)(getRefreshTokenKey u := None) \<and>
   users (logout u w) = users w \<and>
   redis (logout u (logout u w)) = redis (logout u w) \<and>
   (redis w (getRefreshTokenKey u) = None \<longrightarrow> redis (logout u w) = redis w)"
  by (auto simp: op_defs)

theorem logout_invalidates_refresh_token_witness:
  "redis demo_world (getRefreshTokenKey 42) = None \<and>
   redis (logout 42 demo_world) = redis demo_world \<and>
   fst (validateRefreshToken demo_env 42 ''refresh.42.100''
          (advance 0 (logout 42 (snd (login demo_env 42 demo_world))))) =
     Inl UnauthorizedException"
proof -
  have n: "redis demo_world (getRefreshTokenKey 42) = None"
    by (simp add: demo_world_def)
  from logout_invalidates_refresh_token [of demo_env 42 "''refresh.42.100''" 0 demo_world] n
  have a: "redis (logout 42 demo_world) = redis demo_world" by blast
  from logout_invalidates_refresh_token
    [of demo_env 42 "''refresh.42.100''" 0 "snd (login demo_env 42 demo_world)"]
  have b: "fst (validateRefreshToken demo_env 42 ''refresh.42.100''
          (advance 0 (logout 42 (snd (login demo_env 42 demo_world))))) =
     Inl UnauthorizedException" by blast
  from n a b show ?thesis by blast
qed

section \<open>Login and rotation\<close>

text \<open>
  Claim C6. \<^verbatim>\<open>refreshToken(u)\<close> and \<^verbatim>\<open>login(u)\<close> leave the same world behind:
  both take the pair issued by \<^verbatim>\<open>generateTokens\<close>, hash its refresh token with
  argon2 and write the digest under the key of \<open>u\<close> with the configured time to live. The
  results carry the same two tokens; the result of \<^verbatim>\<open>login\<close> has the field
  \<^verbatim>\<open>id\<close> = \<open>u\<close> in addition. Neither reads the store or the users: the tokens
  returned are the same whatever the store and the user table hold.
\<close>

theorem login_refreshToken_same_sequence:
  "snd (login env u w) = snd (refreshToken env u w) \<and>
   fst (login env u w) =
     \<lparr>accessToken = accessToken (fst (refreshToken env u w)),
      refreshToken' = refreshToken' (fst (refreshToken env u w)), login_id = u\<rparr> \<and>
   TokenResponse.truncate (fst (login env u w)) = fst (refreshToken env u w) \<and>
   fst (refreshToken env u w) = generateTokens env u w \<and>
   snd (refreshToken env u w) =
     redis_setex (getRefreshTokenKey u) (REDIS_REFRESH_EXPIRE_SECONDS env)
       (argon2_hash env (seed w) (refreshToken' (generateTokens env u w)))
       (w\<lparr>seed := seed w + 1\<rparr>) \<and>
   redis (snd (refreshToken env u w)) (getRefreshTokenKey u) =
     Some (argon2_hash env (seed w) (refreshToken' (fst (refreshToken env u w))),
           clock w + REDIS_REFRESH_EXPIRE_SECONDS env) \<and>
   fst (login env u (w\<lparr>redis := r, users := us\<rparr>)) = fst (login env u w) \<and>
   fst (refreshToken env u (w\<lparr>redis := r, users := us\<rparr>)) = fst (refreshToken env u w)"
  by (simp add: login_fst login_snd refreshToken_fst refreshToken_snd generateTokens_def
      Let_def redis_setex_def TokenResponse.defs LoginResponse.defs)

section \<open>Password login\<close>

text \<open>
  Claim C7. \<^verbatim>\<open>validateLocalUser(e, p)\<close> fails with Unauthorized when no user has
  the email \<open>e\<close>, when the user found has no password, and when \<open>p\<close> fails the bcrypt
  comparison against the stored digest; otherwise it returns the id of the user found. The
  world it leaves is the world it was given: nothing is written. The falsy test on the
  password also rejects the empty string; it is no further case as long as the comparison
  does not accept the empty string as a digest, which is the assumption made here.
\<close>

theorem validateLocalUser_outcome:
  assumes "bcrypt_rejects_empty env"
  shows "validateLocalUser env e p w =
     (case findOneByEmail e w of
        None \<Rightarrow> Inl UnauthorizedException
      | Some usr \<Rightarrow>
          (case user_password usr of
             None \<Rightarrow> Inl UnauthorizedException
           | Some h \<Rightarrow>
               if bcrypt_compare env p h then Inr \<lparr>id' = user_id usr\<rparr>
               else Inl UnauthorizedException), w)"
  using assms
  by (auto simp: validateLocalUser_def bcrypt_rejects_empty_def split: option.splits)

theorem validateLocalUser_outcome_witness:
  "bcrypt_rejects_empty demo_env \<and>
   validateLocalUser demo_env ''ann@example.org'' ''old-secret'' demo_world =
     (Inr \<lparr>id' = 1\<rparr>, demo_world) \<and>
   validateLocalUser demo_env ''ann@example.org'' ''guess'' demo_world =
     (Inl UnauthorizedException, demo_world) \<and>
   validateLocalUser demo_env ''bob@example.org'' ''old-secret'' demo_world =
     (Inl UnauthorizedException, demo_world) \<and>
   validateLocalUser demo_env ''eve@example.org'' ''old-secret'' demo_world =
     (Inl UnauthorizedException, demo_world)"
proof -
  have f: "findOneByEmail ''ann@example.org'' demo_world =
      Some \<lparr>user_id = 1, user_email = ''ann@example.org'',
          user_password = Some (demo_bcrypt_hash ''old-secret'')\<rparr>"
    "findOneByEmail ''bob@example.org'' demo_world =
      Some \<lparr>user_id = 2, user_email = ''bob@example.org'', user_password = None\<rparr>"
    "findOneByEmail ''eve@example.org'' demo_world = None"
    by (simp_all add: findOneByEmail_def demo_world_def)
  have c: "bcrypt_compare demo_env ''old-secret'' (demo_bcrypt_hash ''old-secret'')"
    "\<not> bcrypt_compare demo_env ''guess'' (demo_bcrypt_hash ''old-secret'')"
    by (simp_all add: demo_env_def demo_bcrypt_compare_def demo_bcrypt_hash_def)
  show ?thesis
    using demo_bcrypt_rejects_empty f c
      validateLocalUser_outcome [OF demo_bcrypt_rejects_empty, of "''ann@example.org''" "''old-secret''" demo_world]
      validateLocalUser_outcome [OF demo_bcrypt_rejects_empty, of "''ann@example.org''" "''guess''" demo_world]
      validateLocalUser_outcome [OF demo_bcrypt_rejects_empty, of "''bob@example.org''" "''old-secret''" demo_world]
      validateLocalUser_outcome [OF demo_bcrypt_rejects_empty, of "''eve@example.org''" "''old-secret''" demo_world]
    by simp
qed

section \<open>OAuth login\<close>

text \<open>
  Claim C8. \<^verbatim>\<open>validateOAuthUser\<close> returns the user already stored under the
  email of the request and leaves the world as it was; when there is none it returns the
  user made by \<^verbatim>\<open>createUser\<close>, which carries the email and no password and is
  appended to the user table. A second call with the same email, whatever else the request
  holds, returns the same user, hence the same id, and changes nothing: at most one user
  is created.
\<close>

theorem validateOAuthUser_idempotent:
  "(\<forall>usr. findOneByEmail (email dto) w = Some usr \<longrightarrow> validateOAuthUser dto w = (usr, w)) \<and>
   (findOneByEmail (email dto) w = None \<longrightarrow>
      user_email (fst (validateOAuthUser dto w)) = email dto \<and>
      user_password (fst (validateOAuthUser dto w)) = None \<and>
      users (snd (validateOAuthUser dto w)) = users w @ [fst (validateOAuthUser dto w)]) \<and>
   (email dto' = email dto \<longrightarrow>
      fst (validateOAuthUser dto' (snd (validateOAuthUser dto w))) =
        fst (validateOAuthUser dto w) \<and>
      user_id (fst (validateOAuthUser dto' (snd (validateOAuthUser dto w)))) =
        user_id (fst (validateOAuthUser dto w)) \<and>
      snd (validateOAuthUser dto' (snd (validateOAuthUser dto w))) =
        snd (validateOAuthUser dto w)) \<and>
   length (users (snd (validateOAuthUser dto w))) \<le> length (users w) + 1"
proof -
  have a: "validateOAuthUser dto w = (usr, w)" if "findOneByEmail (email dto) w = Some usr" for usr
    using that by (rule validateOAuthUser_found)
  have b: "user_email (fst (validateOAuthUser dto w)) = email dto \<and>
      user_password (fst (validateOAuthUser dto w)) = None \<and>
      users (snd (validateOAuthUser dto w)) = users w @ [fst (validateOAuthUser dto w)]"
    if "findOneByEmail (email dto) w = None"
    using that by (simp add: validateOAuthUser_new createUser_fst createUser_snd)
  have c: "validateOAuthUser dto' (snd (validateOAuthUser dto w)) =
      (fst (validateOAuthUser dto w), snd (validateOAuthUser dto w))"
    if "email dto' = email dto"
    using that findOneByEmail_after_validateOAuthUser [of dto w]
    by (simp add: validateOAuthUser_found)
  have d: "length (users (snd (validateOAuthUser dto w))) \<le> length (users w) + 1"
    by (cases "findOneByEmail (email dto) w")
      (simp_all add: validateOAuthUser_new validateOAuthUser_found createUser_snd)
  from a b c d show ?thesis by simp
qed

theorem validateOAuthUser_idempotent_witness:
  "findOneByEmail (email \<lparr>email = ''bob@example.org''\<rparr>) demo_world =
     Some \<lparr>user_id = 2, user_email = ''bob@example.org'', user_password = None\<rparr> \<and>
   validateOAuthUser \<lparr>email = ''bob@example.org''\<rparr> demo_world =
     (\<lparr>user_id = 2, user_email = ''bob@example.org'', user_password = None\<rparr>, demo_world) \<and>
   findOneByEmail (email \<lparr>email = ''eve@example.org''\<rparr>) demo_world = None \<and>
   fst (validateOAuthUser \<lparr>email = ''eve@example.org''\<rparr> demo_world) =
     \<lparr>user_id = 3, user_email = ''eve@example.org'', user_password = None\<rparr> \<and>
   user_id (fst (validateOAuthUser \<lparr>email = ''eve@example.org''\<rparr>
     (snd (validateOAuthUser \<lparr>email = ''eve@example.org''\<rparr> demo_world)))) = 3 \<and>
   length (users (snd (validateOAuthUser \<lparr>email = ''eve@example.org''\<rparr>
     (snd (validateOAuthUser \<lparr>email = ''eve@example.org''\<rparr> demo_world))))) = 3"
proof -
  let ?bob = "\<lparr>email = ''bob@example.org''\<rparr>"
  let ?eve = "\<lparr>email = ''eve@example.org''\<rparr>"
  have fb: "findOneByEmail (email ?bob) demo_world =
     Some \<lparr>user_id = 2, user_email = ''bob@example.org'', user_password = None\<rparr>"
    and fe: "findOneByEmail (email ?eve) demo_world = None"
    by (simp_all add: findOneByEmail_def demo_world_def)
  have first: "fst (validateOAuthUser ?eve demo_world) =
     \<lparr>user_id = 3, user_email = ''eve@example.org'', user_password = None\<rparr>"
    by (simp add: validateOAuthUser_def findOneByEmail_def createUser_def next_id_def
        demo_world_def Let_def)
  have len: "length (users demo_world) = 2" by (simp add: demo_world_def)
  have e: "email ?eve = email ?eve" by simp
  from validateOAuthUser_idempotent [of ?bob demo_world ?bob] fb
  have b: "validateOAuthUser ?bob demo_world =
     (\<lparr>user_id = 2, user_email = ''bob@example.org'', user_password = None\<rparr>, demo_world)"
    by blast
  from validateOAuthUser_idempotent [of ?eve demo_world ?eve] fe e
  have again: "fst (validateOAuthUser ?eve (snd (validateOAuthUser ?eve demo_world))) =
        fst (validateOAuthUser ?eve demo_world)"
    and same: "snd (validateOAuthUser ?eve (snd (validateOAuthUser ?eve demo_world))) =
        snd (validateOAuthUser ?eve demo_world)"
    and grown: "users (snd (validateOAuthUser ?eve demo_world)) =
        users demo_world @ [fst (validateOAuthUser ?eve demo_world)]"
    by blast+
  show ?thesis
    using fb fe b by (simp add: again same grown first len)
qed

section \<open>The Redis key and the value stored under it\<close>




section \<open>Slots of other users\<close>

text \<open>
  Claim C10. For two distinct user ids \<open>u\<close> and \<open>v\<close> the keys differ, and every
  operation invoked for \<open>u\<close> leaves the slot of \<open>v\<close>, and what a read of it answers,
  as it was: the writing operations change no key other than that of \<open>u\<close>.
  \<^verbatim>\<open>validateRefreshToken\<close> and \<^verbatim>\<open>getHashedRefreshToken\<close> change no slot at
  all, so a token that has been validated validates again.
\<close>

theorem other_users_slot_untouched:
  assumes "u \<noteq> v"
  shows "getRefreshTokenKey u \<noteq> getRefreshTokenKey v \<and>
    redis (snd (login env u w)) (getRefreshTokenKey v) = redis w (getRefreshTokenKey v) \<and>
    redis (logout u w) (getRefreshTokenKey v) = redis w (getRefreshTokenKey v) \<and>
    redis (snd (refreshToken env u w)) (getRefreshTokenKey v) = redis w (getRefreshTokenKey v) \<and>
    redis (updateHashedRefreshToken env u hashed w) (getRefreshTokenKey v) =
      redis w (getRefreshTokenKey v) \<and>
    (\<forall>k. k \<noteq> getRefreshTokenKey u \<longrightarrow>
       redis (snd (login env u w)) k = redis w k \<and>
       redis (logout u w) k = redis w k \<and>
       redis (snd (refreshToken env u w)) k = redis w k \<and>
       redis (updateHashedRefreshToken env u hashed w) k = redis w k) \<and>
    redis (snd (validateRefreshToken env u t w)) = redis w \<and>
    redis (snd (getHashedRefreshToken u w)) = redis w \<and>
    fst (getHashedRefreshToken v (snd (login env u w))) = fst (getHashedRefreshToken v w) \<and>
    fst (getHashedRefreshToken v (logout u w)) = fst (getHashedRefreshToken v w) \<and>
    fst (getHashedRefreshToken v (snd (refreshToken env u w))) = fst (getHashedRefreshToken v w) \<and>
    fst (getHashedRefreshToken v (updateHashedRefreshToken env u hashed w)) =
      fst (getHashedRefreshToken v w) \<and>
    fst (getHashedRefreshToken u' (snd (validateRefreshToken env u t w))) =
      fst (getHashedRefreshToken u' w) \<and>
    fst (validateRefreshToken env u' t' (snd (validateRefreshToken env u t w))) =
      fst (validateRefreshToken env u' t' w)"
proof -
  from assms have k: "getRefreshTokenKey v \<noteq> getRefreshTokenKey u"
    using getRefreshTokenKey_inj [of v u] by blast
  then have k': "getRefreshTokenKey u \<noteq> getRefreshTokenKey v" by simp
  have slots: "redis (snd (login env u w)) (getRefreshTokenKey v) = redis w (getRefreshTokenKey v)"
    "redis (logout u w) (getRefreshTokenKey v) = redis w (getRefreshTokenKey v)"
    "redis (snd (refreshToken env u w)) (getRefreshTokenKey v) = redis w (getRefreshTokenKey v)"
    "redis (updateHashedRefreshToken env u hashed w) (getRefreshTokenKey v) =
      redis w (getRefreshTokenKey v)"
    using k
    by (simp_all add: login_snd refreshToken_snd logout_def updateHashedRefreshToken_def
        Let_def redis_setex_def redis_del_def)
  have frame: "redis (snd (login env u w)) k = redis w k \<and>
       redis (logout u w) k = redis w k \<and>
       redis (snd (refreshToken env u w)) k = redis w k \<and>
       redis (updateHashedRefreshToken env u hashed w) k = redis w k"
    if "k \<noteq> getRefreshTokenKey u" for k
    using that
    by (simp add: login_snd refreshToken_snd logout_def updateHashedRefreshToken_def
        Let_def redis_setex_def redis_del_def)
  have clocks: "clock (snd (login env u w)) = clock w" "clock (logout u w) = clock w"
    "clock (snd (refreshToken env u w)) = clock w"
    "clock (updateHashedRefreshToken env u hashed w) = clock w"
    by (simp_all add: login_snd refreshToken_snd logout_def updateHashedRefreshToken_def
        Let_def redis_setex_def redis_del_def)
  have reads: "redis (snd (validateRefreshToken env u t w)) = redis w"
    "redis (snd (getHashedRefreshToken u w)) = redis w"
    by (simp_all add: validateRefreshToken_snd getHashedRefreshToken_snd)
  have lookups: "redis_lookup (snd (validateRefreshToken env u t w)) = redis_lookup w"
    by (rule ext) (simp add: validateRefreshToken_snd redis_lookup_def split: option.splits)
  show ?thesis
    by (simp add: k' slots frame reads getHashedRefreshToken_fst validateRefreshToken_fst lookups
        redis_lookup_cong [OF slots(1) clocks(1)] redis_lookup_cong [OF slots(2) clocks(2)]
        redis_lookup_cong [OF slots(3) clocks(3)] redis_lookup_cong [OF slots(4) clocks(4)])
qed

theorem other_users_slot_untouched_witness:
  "(42::int) \<noteq> 7 \<and>
   getRefreshTokenKey 42 \<noteq> getRefreshTokenKey 7 \<and>
   fst (getHashedRefreshToken 7 (snd (login demo_env 7 demo_world))) = Some ''$0$refresh.7.100'' \<and>
   fst (getHashedRefreshToken 7 (logout 42 (snd (login demo_env 7 demo_world)))) =
     Some ''$0$refresh.7.100'' \<and>
   fst (getHashedRefreshToken 7 (snd (login demo_env 42 (snd (login demo_env 7 demo_world))))) =
     Some ''$0$refresh.7.100''"
proof -
  have d: "(42::int) \<noteq> 7" by simp
  have s: "fst (getHashedRefreshToken 7 (snd (login demo_env 7 demo_world))) =
      Some ''$0$refresh.7.100''"
    by (simp add: demo_defs op_defs key_defs)
  from other_users_slot_untouched [OF d, of demo_env "snd (login demo_env 7 demo_world)"] s d
  show ?thesis by simp
qed

end
